theory Spec2Isabelle
  imports Complex_Main
begin

section \<open>Data model (Paths.ts, lines 9-39)\<close>

text \<open>
  Numbers are modelled as \<^typ>\<open>real\<close>: the comparisons and the structure of the paths are
  what the properties below are about; NaN and the infinities are outside the model.

  \<open>Vector\<close> is imported from \<^verbatim>\<open>./Vectors\<close>; only its use is visible in Paths.ts, which
  reads the two numeric fields \<^verbatim>\<open>x\<close> and \<^verbatim>\<open>y\<close>.
\<close>

record Vector =
  x :: real
  y :: real

text \<open>The tuples produced by \<^verbatim>\<open>normalizeSVG(absSVG(parseSVG(d)))\<close>, tagged "M", "C", "Z".\<close>

datatype SVGNormalizedCommand =
    SVGMoveCommand real real
  | SVGCurveCommand real real real real real real
  | SVGCloseCommand

datatype SVGCommand = MOVE | CURVE | CLOSE

text \<open>
  \<^verbatim>\<open>interface Curve { type; from; to; c1; c2 }\<close>. The type parameter is \<^typ>\<open>Vector\<close> for every
  curve that \<^verbatim>\<open>curve\<close> and \<^verbatim>\<open>parse\<close> build. The curves that \<^verbatim>\<open>interpolatePath\<close> builds are object
  literals without a \<^verbatim>\<open>from\<close> field, cast \<^verbatim>\<open>as Curve\<close>; for them the parameter is \<^typ>\<open>unit\<close>.
\<close>

record 'f Curve =
  from' :: 'f
  to :: Vector
  c1 :: Vector
  c2 :: Vector

text \<open>\<^verbatim>\<open>type Segment = Close | Curve | Move\<close>; a Move is a Vector tagged MOVE.\<close>

datatype 'f Segment = Move Vector | Curve "'f Curve" | Close

type_synonym 'f Path = "'f Segment list"

fun segType :: "'f Segment \<Rightarrow> SVGCommand" where
  "segType (Move c) = MOVE"
| "segType (Curve c) = CURVE"
| "segType Close = CLOSE"

text \<open>
  The exceptions the code can throw. The first three are thrown by the JavaScript runtime
  or by \<^verbatim>\<open>exhaustiveCheck\<close>, the last by the two \<^verbatim>\<open>throw new Error\<close> of \<^verbatim>\<open>interpolatePath\<close>.
\<close>

datatype error =
    UnknownSVGCommand
      \<comment> \<open>TypeError of \<^verbatim>\<open>exhaustiveCheck\<close>: "Unknown SVG Command"\<close>
  | ReduceOfEmptyArray
      \<comment> \<open>TypeError of \<^verbatim>\<open>Array.prototype.reduce\<close> on an empty array with no initial value\<close>
  | UndefinedProperty
      \<comment> \<open>TypeError of reading a property of \<^verbatim>\<open>undefined\<close>\<close>
  | NotSymetrical
      \<comment> \<open>Error "Paths to interpolate are not symetrical"\<close>

text \<open>\<^verbatim>\<open>a[i]\<close> on an array: \<^const>\<open>None\<close> stands for \<^verbatim>\<open>undefined\<close>.\<close>

definition elemAt :: "'a list \<Rightarrow> nat \<Rightarrow> 'a option" where
  "elemAt a i = (if i < length a then Some (a ! i) else None)"

text \<open>\<^verbatim>\<open>a.map(f)\<close> where \<^verbatim>\<open>f\<close> may throw: the first exception, in array order, ends the map.\<close>

fun mapE :: "('a \<Rightarrow> error + 'b) \<Rightarrow> 'a list \<Rightarrow> error + 'b list" where
  "mapE f [] = Inr []"
| "mapE f (a # as) =
     (case f a of
        Inl e \<Rightarrow> Inl e
      | Inr b \<Rightarrow> (case mapE f as of Inl e \<Rightarrow> Inl e | Inr bs \<Rightarrow> Inr (b # bs)))"

section \<open>Builders (lines 252-277)\<close>

definition move :: "real \<Rightarrow> real \<Rightarrow> 'f Segment" where
  "move px py = Move \<lparr>x = px, y = py\<rparr>"

definition curve :: "'f Curve \<Rightarrow> 'f Segment" where
  "curve c = Curve \<lparr>from' = from' c, to = to c, c1 = c1 c, c2 = c2 c\<rparr>"

definition close :: "'f Segment" where
  "close = Close"

definition isMove :: "'f Segment \<Rightarrow> bool" where
  "isMove command \<longleftrightarrow> segType command = MOVE"

definition isCurve :: "'f Segment \<Rightarrow> bool" where
  "isCurve command \<longleftrightarrow> segType command = CURVE"

definition isClose :: "'f Segment \<Rightarrow> bool" where
  "isClose command \<longleftrightarrow> segType command = CLOSE"

section \<open>serialize (lines 46-95)\<close>

text \<open>
  The template strings convert numbers with JavaScript's number-to-string conversion,
  which is the language's and not this file's: it is the parameter \<open>str\<close>.
\<close>

definition serializeMove :: "(real \<Rightarrow> string) \<Rightarrow> Vector \<Rightarrow> string" where
  "serializeMove str c = ''M'' @ str (x c) @ '','' @ str (y c) @ '' ''"

definition serializeClose :: string where
  "serializeClose = ''Z''"

definition serializeCurve :: "(real \<Rightarrow> string) \<Rightarrow> 'f Curve \<Rightarrow> string" where
  "serializeCurve str c =
     ''C'' @ str (x (c1 c)) @ '','' @ str (y (c1 c)) @ '' '' @
     str (x (c2 c)) @ '','' @ str (y (c2 c)) @ '' '' @
     str (x (to c)) @ '','' @ str (y (to c)) @ '' ''"

text \<open>
  The callback of \<^verbatim>\<open>path.map\<close> in \<^verbatim>\<open>serialize\<close>. A segment is one of the three variants,
  so the chain of \<^verbatim>\<open>if\<close> never reaches \<^verbatim>\<open>exhaustiveCheck\<close>.
\<close>

definition serializeSegment :: "(real \<Rightarrow> string) \<Rightarrow> 'f Segment \<Rightarrow> error + string" where
  "serializeSegment str segment =
     (case segment of
        Move c \<Rightarrow> Inr (serializeMove str c)
      | Curve c \<Rightarrow> Inr (serializeCurve str c)
      | Close \<Rightarrow> Inr serializeClose)"

text \<open>\<^verbatim>\<open>a.reduce(f)\<close> with no initial value: the first element starts the accumulator.\<close>

definition reduce :: "('a \<Rightarrow> 'a \<Rightarrow> 'a) \<Rightarrow> 'a list \<Rightarrow> error + 'a" where
  "reduce f a = (case a of [] \<Rightarrow> Inl ReduceOfEmptyArray | a0 # as \<Rightarrow> Inr (foldl f a0 as))"

definition serialize :: "(real \<Rightarrow> string) \<Rightarrow> 'f Path \<Rightarrow> error + string" where
  "serialize str path =
     (case mapE (serializeSegment str) path of
        Inl e \<Rightarrow> Inl e
      | Inr tokens \<Rightarrow> reduce (\<lambda>acc c. acc @ c) tokens)"

section \<open>parse (lines 102-132)\<close>

text \<open>\<^verbatim>\<open>segment[0]\<close> and \<^verbatim>\<open>segment[k]\<close> on a command tuple; \<^const>\<open>None\<close> is \<^verbatim>\<open>undefined\<close>.\<close>

fun tag :: "SVGNormalizedCommand \<Rightarrow> string" where
  "tag (SVGMoveCommand a b) = ''M''"
| "tag (SVGCurveCommand a b c d e f) = ''C''"
| "tag SVGCloseCommand = ''Z''"

fun elem :: "SVGNormalizedCommand \<Rightarrow> nat \<Rightarrow> real option" where
  "elem (SVGMoveCommand a b) k =
     (if k = 1 then Some a else if k = 2 then Some b else None)"
| "elem (SVGCurveCommand a b c d e f) k =
     (if k = 1 then Some a else if k = 2 then Some b else if k = 3 then Some c
      else if k = 4 then Some d else if k = 5 then Some e else if k = 6 then Some f
      else None)"
| "elem SVGCloseCommand k = None"

text \<open>\<^verbatim>\<open>v ?? d\<close>.\<close>

definition nullish :: "real option \<Rightarrow> real \<Rightarrow> real" where
  "nullish v d = (case v of None \<Rightarrow> d | Some r \<Rightarrow> r)"

text \<open>
  The callback of \<^verbatim>\<open>segments.map\<close>. At index 0, \<^verbatim>\<open>segments[index - 1]\<close> is \<^verbatim>\<open>undefined\<close>, and
  \<^verbatim>\<open>prev[0]\<close> throws a TypeError.
\<close>

definition parseSegment :: "SVGNormalizedCommand list \<Rightarrow> nat \<Rightarrow> error + Vector Segment" where
  "parseSegment segments index =
     (case segments ! index of
        SVGMoveCommand s1 s2 \<Rightarrow> Inr (move s1 s2)
      | SVGCloseCommand \<Rightarrow> Inr close
      | SVGCurveCommand s1 s2 s3 s4 s5 s6 \<Rightarrow>
          (case (if index = 0 then None else elemAt segments (index - 1)) of
             None \<Rightarrow> Inl UndefinedProperty
           | Some prev \<Rightarrow>
               Inr (curve
                 \<lparr>from' =
                    \<lparr>x = nullish (if tag prev = ''M'' then elem prev 1 else elem prev 5) 0,
                     y = nullish (if tag prev = ''M'' then elem prev 2 else elem prev 6) 0\<rparr>,
                  to = \<lparr>x = s5, y = s6\<rparr>,
                  c1 = \<lparr>x = s1, y = s2\<rparr>,
                  c2 = \<lparr>x = s3, y = s4\<rparr>\<rparr>)))"

definition parseSegments :: "SVGNormalizedCommand list \<Rightarrow> error + Vector Path" where
  "parseSegments segments = mapE (parseSegment segments) [0..<length segments]"

text \<open>
  \<^verbatim>\<open>parse\<close>; the three external packages that turn the text into normalized commands are
  the parameter \<open>normalizeSVG\<close>.
\<close>

definition parse :: "(string \<Rightarrow> SVGNormalizedCommand list) \<Rightarrow> string \<Rightarrow> error + Vector Path" where
  "parse normalizeSVG d = parseSegments (normalizeSVG d)"

section \<open>interpolatePath and mixPath (lines 137-247)\<close>

text \<open>
  \<^verbatim>\<open>Animated.Extrapolate\<close> and \<^verbatim>\<open>interpolate\<close> belong to react-native-reanimated. The enum is
  reproduced; the function is the parameter \<open>interpolate\<close> of the definitions below, of its
  declared type (value, input range, output range, extrapolation) to number.
\<close>

datatype Extrapolate = EXTEND | CLAMP | IDENTITY

type_synonym interpolate_fn = "real \<Rightarrow> real list \<Rightarrow> real list \<Rightarrow> Extrapolate \<Rightarrow> real"

text \<open>A parameter with the default value \<^verbatim>\<open>Animated.Extrapolate.CLAMP\<close>; \<^const>\<open>None\<close> is an omitted argument.\<close>

definition extrapolateOrDefault :: "Extrapolate option \<Rightarrow> Extrapolate" where
  "extrapolateOrDefault extrapolate = (case extrapolate of None \<Rightarrow> CLAMP | Some e \<Rightarrow> e)"

text \<open>
  The two callbacks of \<^verbatim>\<open>outputRange.map\<close>. \<^verbatim>\<open>p[index]\<close> is \<^verbatim>\<open>undefined\<close> past the end of \<^verbatim>\<open>p\<close>,
  where \<^verbatim>\<open>isMove(s)\<close> and \<^verbatim>\<open>isCurve(s)\<close> throw a TypeError on reading \<^verbatim>\<open>s.type\<close>.
\<close>

definition movePoint :: "nat \<Rightarrow> 'f Path \<Rightarrow> error + Vector" where
  "movePoint index p =
     (case elemAt p index of
        None \<Rightarrow> Inl UndefinedProperty
      | Some s \<Rightarrow>
          (case s of
             Move c \<Rightarrow> Inr \<lparr>x = x c, y = y c\<rparr>
           | _ \<Rightarrow> Inl NotSymetrical))"

definition curvePoints :: "nat \<Rightarrow> 'f Path \<Rightarrow> error + unit Curve" where
  "curvePoints index p =
     (case elemAt p index of
        None \<Rightarrow> Inl UndefinedProperty
      | Some s \<Rightarrow>
          (case s of
             Curve c \<Rightarrow> Inr \<lparr>from' = (), to = to c, c1 = c1 c, c2 = c2 c\<rparr>
           | _ \<Rightarrow> Inl NotSymetrical))"

text \<open>The callback of \<^verbatim>\<open>outputRange[0].map\<close>: one segment of the first path and its index.\<close>

definition interpolateSegment ::
  "interpolate_fn \<Rightarrow> real \<Rightarrow> real list \<Rightarrow> 'f Path list \<Rightarrow> Extrapolate \<Rightarrow>
   'f Segment \<Rightarrow> nat \<Rightarrow> error + unit Segment" where
  "interpolateSegment interpolate val inputRange outputRange extrapolate segment index =
     (case segment of
        Move _ \<Rightarrow>
          (case mapE (movePoint index) outputRange of
             Inl e \<Rightarrow> Inl e
           | Inr points \<Rightarrow>
               Inr (Move
                 \<lparr>x = interpolate val inputRange (map x points) extrapolate,
                  y = interpolate val inputRange (map y points) extrapolate\<rparr>))
      | Curve _ \<Rightarrow>
          (case mapE (curvePoints index) outputRange of
             Inl e \<Rightarrow> Inl e
           | Inr curves \<Rightarrow>
               Inr (Curve
                 \<lparr>from' = (),
                  to =
                    \<lparr>x = interpolate val inputRange (map (\<lambda>c. x (to c)) curves) extrapolate,
                     y = interpolate val inputRange (map (\<lambda>c. y (to c)) curves) extrapolate\<rparr>,
                  c1 =
                    \<lparr>x = interpolate val inputRange (map (\<lambda>c. x (c1 c)) curves) extrapolate,
                     y = interpolate val inputRange (map (\<lambda>c. y (c1 c)) curves) extrapolate\<rparr>,
                  c2 =
                    \<lparr>x = interpolate val inputRange (map (\<lambda>c. x (c2 c)) curves) extrapolate,
                     y = interpolate val inputRange (map (\<lambda>c. y (c2 c)) curves) extrapolate\<rparr>\<rparr>))
      | Close \<Rightarrow> Inr Close)"

text \<open>
  The constant \<^verbatim>\<open>path\<close> of \<^verbatim>\<open>interpolatePath\<close>. On an empty \<^verbatim>\<open>outputRange\<close>, \<^verbatim>\<open>outputRange[0]\<close> is
  \<^verbatim>\<open>undefined\<close> and \<^verbatim>\<open>.map\<close> throws a TypeError.
\<close>

definition interpolatedPath ::
  "interpolate_fn \<Rightarrow> real \<Rightarrow> real list \<Rightarrow> 'f Path list \<Rightarrow> Extrapolate \<Rightarrow> error + unit Path" where
  "interpolatedPath interpolate val inputRange outputRange extrapolate =
     (case elemAt outputRange 0 of
        None \<Rightarrow> Inl UndefinedProperty
      | Some p0 \<Rightarrow>
          mapE (\<lambda>index. interpolateSegment interpolate val inputRange outputRange extrapolate
                          (p0 ! index) index)
            [0..<length p0])"

definition interpolatePath ::
  "interpolate_fn \<Rightarrow> (real \<Rightarrow> string) \<Rightarrow> real \<Rightarrow> real list \<Rightarrow> 'f Path list \<Rightarrow>
   Extrapolate option \<Rightarrow> error + string" where
  "interpolatePath interpolate str val inputRange outputRange extrapolate =
     (case interpolatedPath interpolate val inputRange outputRange
             (extrapolateOrDefault extrapolate) of
        Inl e \<Rightarrow> Inl e
      | Inr path \<Rightarrow> serialize str path)"

definition mixPath ::
  "interpolate_fn \<Rightarrow> (real \<Rightarrow> string) \<Rightarrow> real \<Rightarrow> 'f Path \<Rightarrow> 'f Path \<Rightarrow>
   Extrapolate option \<Rightarrow> error + string" where
  "mixPath interpolate str val p1 p2 extrapolate =
     interpolatePath interpolate str val [0, 1] [p1, p2]
       (Some (extrapolateOrDefault extrapolate))"

section \<open>getYForX (lines 290-305)\<close>

text \<open>The callback of \<^verbatim>\<open>path.filter\<close>.\<close>

definition getYForX_filter :: "real \<Rightarrow> Vector Segment \<Rightarrow> bool" where
  "getYForX_filter qx c =
     (case c of
        Curve c \<Rightarrow>
          (if x (from' c) > x (to c) then qx \<ge> x (to c) \<and> qx \<le> x (from' c)
           else qx \<ge> x (from' c) \<and> qx \<le> x (to c))
      | _ \<Rightarrow> False)"

text \<open>
  \<^verbatim>\<open>cubicBezierYForX\<close> is imported from \<^verbatim>\<open>./Math\<close> and is a parameter here. When the filter
  keeps nothing, \<^verbatim>\<open>p[0]\<close> is \<^verbatim>\<open>undefined\<close> and \<^verbatim>\<open>isCurve(p[0])\<close> throws a TypeError on reading
  \<^verbatim>\<open>command.type\<close>, before the final \<^verbatim>\<open>return 0\<close>.
\<close>

definition getYForX ::
  "(real \<Rightarrow> Vector \<Rightarrow> Vector \<Rightarrow> Vector \<Rightarrow> Vector \<Rightarrow> real) \<Rightarrow> Vector Path \<Rightarrow> real \<Rightarrow> error + real" where
  "getYForX cubicBezierYForX path qx =
     (let p = filter (getYForX_filter qx) path in
      case elemAt p 0 of
        None \<Rightarrow> Inl UndefinedProperty
      | Some p0 \<Rightarrow>
          (case p0 of
             Curve c \<Rightarrow> Inr (cubicBezierYForX qx (from' c) (c1 c) (c2 c) (to c))
           | _ \<Rightarrow> Inr 0))"

section \<open>Notions of the specification\<close>

text \<open>
  Structurally identical paths: every path has the segment kinds of the first one, in the
  same order (hence the same length).
\<close>

definition symmetrical :: "'f Path list \<Rightarrow> bool" where
  "symmetrical paths \<longleftrightarrow> list_all (\<lambda>p. map segType p = map segType (hd paths)) paths"

text \<open>A segment with its \<^verbatim>\<open>from\<close> field forgotten: two paths that differ only there agree on it.\<close>

fun withoutFrom :: "'f Segment \<Rightarrow> unit Segment" where
  "withoutFrom (Move c) = Move c"
| "withoutFrom (Curve c) = Curve \<lparr>from' = (), to = to c, c1 = c1 c, c2 = c2 c\<rparr>"
| "withoutFrom Close = Close"

text \<open>The command letters of the SVG path grammar.\<close>

definition commandLetters :: "char set" where
  "commandLetters = set ''MmZzLlHhVvCcSsQqTtAa''"


text \<open>
  Modelled from the spec: the scalar interpolation \<^verbatim>\<open>interpolate\<close> of react-native-reanimated
  is not among the sources. Section 4.5: find the bracketing pair of breakpoints and
  interpolate the corresponding pair of outputs linearly. \<open>lerpRange\<close> is that search and
  blend, on the last pair when the value is beyond it.
\<close>

fun lerpRange :: "real \<Rightarrow> real list \<Rightarrow> real list \<Rightarrow> real" where
  "lerpRange val (a # b # is) (p # q # os) =
     (if val \<le> b \<or> is = [] then p + (val - a) * (q - p) / (b - a)
      else lerpRange val (b # is) (q # os))"
| "lerpRange val is (p # os) = p"
| "lerpRange val is [] = 0"

text \<open>
  Modelled from the spec: \<^verbatim>\<open>interpolate\<close> with its extrapolation policy, not among the sources.
  Section 4.5: under clamp, a value outside the bounds of the input range is pinned to
  the nearest boundary.
\<close>

definition interpolate_spec :: interpolate_fn where
  "interpolate_spec val inputRange outs extrapolate =
     (case extrapolate of
        CLAMP \<Rightarrow> lerpRange (max (hd inputRange) (min (last inputRange) val)) inputRange outs
      | EXTEND \<Rightarrow> lerpRange val inputRange outs
      | IDENTITY \<Rightarrow>
          (if val < hd inputRange \<or> last inputRange < val then val
           else lerpRange val inputRange outs))"

text \<open>
  A number printer for the examples: decimal digits of the integer part, with a sign. It
  agrees with JavaScript's conversion on the integers the examples use.
\<close>

fun decimal :: "nat \<Rightarrow> string" where
  "decimal n =
     (if n < 10 then [''0123456789'' ! n]
      else decimal (n div 10) @ [''0123456789'' ! (n mod 10)])"

declare decimal.simps [simp del]

definition numberToString :: "real \<Rightarrow> string" where
  "numberToString r = (if r < 0 then ''-'' else []) @ decimal (nat \<lfloor>\<bar>r\<bar>\<rfloor>)"

section \<open>Results about serialize\<close>

lemma mapE_serializeSegment:
  "mapE (serializeSegment str) path =
     Inr (map (\<lambda>s. case s of Move c \<Rightarrow> serializeMove str c
                   | Curve c \<Rightarrow> serializeCurve str c | Close \<Rightarrow> serializeClose) path)"
  by (induction path) (auto simp: serializeSegment_def split: Segment.splits)

lemma reduce_append: "reduce (\<lambda>acc c. acc @ c) (t # ts) = Inr (concat (t # ts))"
proof -
  have "foldl (\<lambda>acc c. acc @ c) a ts = a @ concat ts" for a :: "'a list"
    by (induction ts arbitrary: a) auto
  then show ?thesis by (simp add: reduce_def)
qed

lemma serialize_concat:
  assumes "path \<noteq> []"
  shows "serialize str path =
     Inr (concat (map (\<lambda>s. case s of Move c \<Rightarrow> serializeMove str c
                   | Curve c \<Rightarrow> serializeCurve str c | Close \<Rightarrow> serializeClose) path))"
proof -
  obtain s ss where "path = s # ss" using assms by (cases path) auto
  then show ?thesis
    unfolding serialize_def mapE_serializeSegment by (simp add: reduce_append)
qed

lemma token_letters:
  assumes "\<forall>n. set (str n) \<inter> commandLetters = {}"
  shows "set (case s of Move c \<Rightarrow> serializeMove str c
                   | Curve c \<Rightarrow> serializeCurve str c | Close \<Rightarrow> serializeClose) \<inter> commandLetters
          \<subseteq> {CHR ''M'', CHR ''C'', CHR ''Z''}"
proof -
  have sp: "CHR '' '' \<notin> commandLetters" "CHR '','' \<notin> commandLetters"
    by (simp_all add: commandLetters_def)
  have n: "c \<in> set (str r) \<Longrightarrow> c \<notin> commandLetters" for c r
    using assms by blast
  show ?thesis
    by (cases s) (auto simp: serializeMove_def serializeCurve_def serializeClose_def sp dest: n)
qed

text \<open>
  Claim C5. On a non-empty path \<^verbatim>\<open>serialize\<close> returns (it is a total function and the result is
  a string, not an error) the concatenation, in path order, of one token per segment:
  "M{x},{y} " for a Move, "C{c1.x},{c1.y} {c2.x},{c2.y} {to.x},{to.y} " for a Curve (no
  \<^verbatim>\<open>from\<close>), "Z" for a Close. When the number printer emits no command letter, the only
  command letters of the output are M, C and Z.
\<close>

theorem serialize_tokens:
  assumes "path \<noteq> []"
  shows "\<exists>out. serialize str path = Inr out \<and>
           out = concat (map (\<lambda>s. case s of
                     Move c \<Rightarrow> ''M'' @ str (x c) @ '','' @ str (y c) @ '' ''
                   | Curve c \<Rightarrow>
                       ''C'' @ str (x (c1 c)) @ '','' @ str (y (c1 c)) @ '' '' @
                       str (x (c2 c)) @ '','' @ str (y (c2 c)) @ '' '' @
                       str (x (to c)) @ '','' @ str (y (to c)) @ '' ''
                   | Close \<Rightarrow> ''Z'') path) \<and>
           ((\<forall>n. set (str n) \<inter> commandLetters = {}) \<longrightarrow>
              set out \<inter> commandLetters \<subseteq> {CHR ''M'', CHR ''C'', CHR ''Z''})"
proof -
  let ?tok = "\<lambda>s. case s of Move c \<Rightarrow> serializeMove str c
                   | Curve c \<Rightarrow> serializeCurve str c | Close \<Rightarrow> serializeClose"
  let ?spec = "\<lambda>s. case s of
                     Move c \<Rightarrow> ''M'' @ str (x c) @ '','' @ str (y c) @ '' ''
                   | Curve c \<Rightarrow>
                       ''C'' @ str (x (c1 c)) @ '','' @ str (y (c1 c)) @ '' '' @
                       str (x (c2 c)) @ '','' @ str (y (c2 c)) @ '' '' @
                       str (x (to c)) @ '','' @ str (y (to c)) @ '' ''
                   | Close \<Rightarrow> ''Z''"
  have eq: "?tok = ?spec"
    by (rule ext) (simp add: serializeMove_def serializeCurve_def serializeClose_def
        split: Segment.split)
  have 1: "serialize str path = Inr (concat (map ?tok path))"
    using assms by (rule serialize_concat)
  have 2: "set (concat (map ?tok path)) \<inter> commandLetters \<subseteq> {CHR ''M'', CHR ''C'', CHR ''Z''}"
    if "\<forall>n. set (str n) \<inter> commandLetters = {}"
    using token_letters [OF that] by fastforce
  show ?thesis
    unfolding eq [symmetric] using 1 2 by blast
qed

lemma decimal_digits: "set (decimal n) \<subseteq> set ''0123456789''"
proof (induction n rule: decimal.induct)
  case (1 n)
  have d: "k < 10 \<Longrightarrow> ''0123456789'' ! k \<in> set ''0123456789''" for k
    by (rule nth_mem) simp
  show ?case
  proof (cases "n < 10")
    case True
    then show ?thesis using d [of n] by (subst decimal.simps) simp
  next
    case False
    have "n mod 10 < 10" by simp
    then show ?thesis using False 1 d [of "n mod 10"] by (subst decimal.simps) simp
  qed
qed

lemma numberToString_letters: "set (numberToString n) \<inter> commandLetters = {}"
proof -
  have "set ''0123456789'' \<inter> commandLetters = {}" by (simp add: commandLetters_def)
  moreover have "CHR ''-'' \<notin> commandLetters" by (simp add: commandLetters_def)
  ultimately show ?thesis
    using decimal_digits [of "nat \<lfloor>\<bar>n\<bar>\<rfloor>"] by (auto simp: numberToString_def)
qed

text \<open>The claim at a path of three segments, with the decimal printer.\<close>

theorem serialize_tokens_witness:
  "[Move \<lparr>x = 150, y = 0\<rparr>,
    Curve \<lparr>from' = \<lparr>x = 150, y = 0\<rparr>, to = \<lparr>x = 200, y = 75\<rparr>,
           c1 = \<lparr>x = 150, y = 0\<rparr>, c2 = \<lparr>x = 0, y = 75\<rparr>\<rparr>, Close] \<noteq> [] \<and>
   (\<forall>n. set (numberToString n) \<inter> commandLetters = {}) \<and>
   serialize numberToString
     [Move \<lparr>x = 150, y = 0\<rparr>,
      Curve \<lparr>from' = \<lparr>x = 150, y = 0\<rparr>, to = \<lparr>x = 200, y = 75\<rparr>,
             c1 = \<lparr>x = 150, y = 0\<rparr>, c2 = \<lparr>x = 0, y = 75\<rparr>\<rparr>, Close]
     = Inr ''M150,0 C150,0 0,75 200,75 Z'' \<and>
   set ''M150,0 C150,0 0,75 200,75 Z'' \<inter> commandLetters \<subseteq> {CHR ''M'', CHR ''C'', CHR ''Z''}"
proof -
  have n: "numberToString 150 = ''150''" "numberToString 0 = ''0''"
    "numberToString 75 = ''75''" "numberToString 200 = ''200''"
    by (simp_all add: numberToString_def decimal.simps)
  show ?thesis
    using serialize_tokens [of "[Move \<lparr>x = 150, y = 0\<rparr>,
      Curve \<lparr>from' = \<lparr>x = 150, y = 0\<rparr>, to = \<lparr>x = 200, y = 75\<rparr>,
             c1 = \<lparr>x = 150, y = 0\<rparr>, c2 = \<lparr>x = 0, y = 75\<rparr>\<rparr>, Close]" numberToString]
      numberToString_letters
    by (simp add: n)
qed

text \<open>
  Claim C6. \<^verbatim>\<open>serialize\<close> of the empty path fails: \<^verbatim>\<open>reduce\<close> is called on an empty array
  with no initial value and throws (the spec's EmptyPath); no empty string is returned.
\<close>

theorem serialize_empty_fails:
  "serialize str [] = Inl ReduceOfEmptyArray"
  by (simp add: serialize_def reduce_def)

section \<open>Results about mixPath and asymmetrical input\<close>

text \<open>
  Claim C9. \<^verbatim>\<open>mixPath(value, pA, pB, extrapolate)\<close> is
  \<^verbatim>\<open>interpolatePath(value, [0, 1], [pA, pB], extrapolate)\<close>, with the extrapolation given or
  omitted. With an \<^verbatim>\<open>interpolate\<close> that gives 5 half way between 0 and 10 and a printer that
  prints 5 as "5", the mix of a Move at (0,0) and a Move at (10,10) at 0.5 is "M5,5 ".
\<close>

theorem mixPath_interpolatePath:
  "mixPath interpolate str val (pA :: 'f Path) pB extrapolate =
     interpolatePath interpolate str val [0, 1] [pA, pB] extrapolate \<and>
   (interpolate (1 / 2) [0, 1] [0, 10] CLAMP = 5 \<and> str 5 = ''5'' \<longrightarrow>
      mixPath interpolate str (1 / 2)
        [Move \<lparr>x = 0, y = 0\<rparr> :: 'f Segment] [Move \<lparr>x = 10, y = 10\<rparr>] None
        = Inr ''M5,5 '')"
  by (simp add: mixPath_def interpolatePath_def interpolatedPath_def interpolateSegment_def
      movePoint_def elemAt_def extrapolateOrDefault_def serialize_def serializeSegment_def
      serializeMove_def reduce_def split: option.split)

text \<open>
  The claim with the linear interpolation of the spec and the decimal printer.
\<close>

theorem mixPath_interpolatePath_witness:
  "interpolate_spec (1 / 2) [0, 1] [0, 10] CLAMP = 5 \<and> numberToString 5 = ''5'' \<and>
   mixPath interpolate_spec numberToString (1 / 2)
     [Move \<lparr>x = 0, y = 0\<rparr> :: Vector Segment] [Move \<lparr>x = 10, y = 10\<rparr>] None = Inr ''M5,5 '' \<and>
   interpolatePath interpolate_spec numberToString (1 / 2) [0, 1]
     [ [Move \<lparr>x = 0, y = 0\<rparr> :: Vector Segment], [Move \<lparr>x = 10, y = 10\<rparr>] ] None = Inr ''M5,5 ''"
proof -
  have 1: "interpolate_spec (1 / 2) [0, 1] [0, 10] CLAMP = 5"
    by (simp add: interpolate_spec_def)
  have 2: "numberToString 5 = ''5''"
    by (simp add: numberToString_def decimal.simps)
  note m = mixPath_interpolatePath [of interpolate_spec numberToString "1 / 2"
        "[Move \<lparr>x = 0, y = 0\<rparr> :: Vector Segment]" "[Move \<lparr>x = 10, y = 10\<rparr>]" None]
  have 3: "mixPath interpolate_spec numberToString (1 / 2)
     [Move \<lparr>x = 0, y = 0\<rparr> :: Vector Segment] [Move \<lparr>x = 10, y = 10\<rparr>] None = Inr ''M5,5 ''"
    using m 1 2 by blast
  have 4: "interpolatePath interpolate_spec numberToString (1 / 2) [0, 1]
     [ [Move \<lparr>x = 0, y = 0\<rparr> :: Vector Segment], [Move \<lparr>x = 10, y = 10\<rparr>] ] None = Inr ''M5,5 ''"
    using m 3 by metis
  show ?thesis using 1 2 3 4 by blast
qed

text \<open>
  Claim C1, at two inputs that are not symmetrical. A Close in the first path aligned with a
  Move in the second: the Close branch returns the segment without looking at the other
  paths, and the call returns "Z". A second path longer than the first: its extra segment
  is never visited, and the call returns the blend of the two Moves. Neither call throws
  "Paths to interpolate are not symetrical", which the Move and Curve branches throw.
\<close>

theorem interpolatePath_asymmetric_accepted:
  "interpolatePath interpolate str val [0, 1] [ [Close], [Move \<lparr>x = 1, y = 1\<rparr>] ] extrapolate
     = Inr ''Z'' \<and>
   interpolatePath interpolate str val [0, 1]
     [ [Move \<lparr>x = 0, y = 0\<rparr>], [Move \<lparr>x = 1, y = 1\<rparr>, Close] ] extrapolate
     = Inr (''M'' @ str (interpolate val [0, 1] [0, 1] (extrapolateOrDefault extrapolate)) @ '','' @
            str (interpolate val [0, 1] [0, 1] (extrapolateOrDefault extrapolate)) @ '' '')"
  by (simp add: interpolatePath_def interpolatedPath_def interpolateSegment_def
      movePoint_def elemAt_def serialize_def serializeSegment_def
      serializeMove_def serializeClose_def reduce_def)

text \<open>
  The Move and Curve branches do compare kinds: a Move of the first path aligned with a
  Close throws the asymmetry error, and a second path that is too short throws a TypeError.
\<close>

lemma interpolatePath_mismatch_throws:
  "interpolatePath interpolate str val [0, 1]
     [ [Move \<lparr>x = 0, y = 0\<rparr>], [Close] ] extrapolate = Inl NotSymetrical \<and>
   interpolatePath interpolate str val [0, 1]
     [ [Move \<lparr>x = 0, y = 0\<rparr>, Close], [Close, Close] ] extrapolate = Inl NotSymetrical \<and>
   interpolatePath interpolate str val [0, 1]
     [ [Move \<lparr>x = 0, y = 0\<rparr>, Move \<lparr>x = 1, y = 1\<rparr>], [Move \<lparr>x = 2, y = 2\<rparr>] ] extrapolate
     = Inl UndefinedProperty"
  by (simp add: interpolatePath_def interpolatedPath_def interpolateSegment_def
      movePoint_def elemAt_def upt_rec [of 0] upt_rec [of 1])

section \<open>Results about getYForX when nothing brackets the query\<close>

text \<open>
  What \<^verbatim>\<open>getYForX\<close> does: the filter keeps exactly the Curves whose closed x-interval contains
  the query, the first kept Curve goes to \<^verbatim>\<open>cubicBezierYForX\<close>, and an empty selection throws.
\<close>

lemma getYForX_filter_iff:
  "getYForX_filter qx s \<longleftrightarrow>
     (\<exists>c. s = Curve c \<and> min (x (from' c)) (x (to c)) \<le> qx \<and> qx \<le> max (x (from' c)) (x (to c)))"
  by (cases s) (auto simp: getYForX_filter_def)

lemma getYForX_first:
  assumes "filter (getYForX_filter qx) path = s # rest"
  shows "\<exists>c. s = Curve c \<and>
           getYForX cubicBezierYForX path qx = Inr (cubicBezierYForX qx (from' c) (c1 c) (c2 c) (to c))"
proof -
  have "s \<in> set (filter (getYForX_filter qx) path)" using assms by simp
  then have "getYForX_filter qx s" by simp
  then obtain c where "s = Curve c" by (auto simp: getYForX_filter_iff)
  then show ?thesis using assms by (simp add: getYForX_def elemAt_def)
qed

lemma getYForX_none:
  assumes "filter (getYForX_filter qx) path = []"
  shows "getYForX cubicBezierYForX path qx = Inl UndefinedProperty"
  using assms by (simp add: getYForX_def elemAt_def)

text \<open>
  Claim C3, where no Curve brackets the query: an empty path, a path with no Curve, and a
  path whose only Curve spans [0,3] queried at 5. \<^verbatim>\<open>p[0]\<close> is \<^verbatim>\<open>undefined\<close>, \<^verbatim>\<open>isCurve(p[0])\<close> throws,
  and the \<^verbatim>\<open>return 0\<close> that follows is not reached.
\<close>

theorem getYForX_no_bracket_throws:
  "getYForX cubicBezierYForX [] 5 = Inl UndefinedProperty \<and>
   getYForX cubicBezierYForX [Move \<lparr>x = 0, y = 0\<rparr>] 5 = Inl UndefinedProperty \<and>
   getYForX cubicBezierYForX
     [Move \<lparr>x = 0, y = 0\<rparr>,
      Curve \<lparr>from' = \<lparr>x = 0, y = 0\<rparr>, to = \<lparr>x = 3, y = 3\<rparr>,
             c1 = \<lparr>x = 1, y = 1\<rparr>, c2 = \<lparr>x = 2, y = 2\<rparr>\<rparr>] 5 = Inl UndefinedProperty"
  by (simp add: getYForX_def getYForX_filter_def elemAt_def)

section \<open>Results about parse\<close>

text \<open>
  Claim C2 fails where a Close is followed by a cubic: \<^verbatim>\<open>prev[5]\<close> and \<^verbatim>\<open>prev[6]\<close> are
  \<^verbatim>\<open>undefined\<close> on ["Z"], \<^verbatim>\<open>?? 0\<close> replaces them, and the curve is returned with from = (0,0);
  nothing is raised.
\<close>

theorem parse_close_then_curve_counterexample:
  "parseSegments [SVGMoveCommand 1 2, SVGCloseCommand, SVGCurveCommand 3 4 5 6 7 8] =
     Inr [Move \<lparr>x = 1, y = 2\<rparr>, Close,
          Curve \<lparr>from' = \<lparr>x = 0, y = 0\<rparr>, to = \<lparr>x = 7, y = 8\<rparr>,
                 c1 = \<lparr>x = 3, y = 4\<rparr>, c2 = \<lparr>x = 5, y = 6\<rparr>\<rparr>]"
  by (simp add: parseSegments_def parseSegment_def upt_rec [of 0] upt_rec [of 1] upt_rec [of 2]
      elemAt_def move_def close_def curve_def nullish_def)

text \<open>A cubic as the first command has no predecessor to read: \<^verbatim>\<open>prev[0]\<close> throws.\<close>

lemma parse_first_cubic_throws:
  "parseSegments (SVGCurveCommand s1 s2 s3 s4 s5 s6 # rest) = Inl UndefinedProperty"
  by (simp add: parseSegments_def parseSegment_def upt_rec [of 0])

text \<open>A map whose callback never throws returns one result per element.\<close>

lemma mapE_Inr:
  assumes "\<And>a. a \<in> set as \<Longrightarrow> \<exists>b. f a = Inr b \<and> P a b"
  shows "\<exists>bs. mapE f as = Inr bs \<and> list_all2 P as bs"
  using assms
proof (induction as)
  case Nil
  then show ?case by simp
next
  case (Cons a as)
  obtain b where b: "f a = Inr b" "P a b" using Cons.prems [of a] by auto
  obtain bs where bs: "mapE f as = Inr bs" "list_all2 P as bs"
    using Cons.IH Cons.prems by auto
  show ?case using b bs by simp
qed

lemma mapE_upt:
  assumes "\<And>i. i < n \<Longrightarrow> \<exists>b. f i = Inr b \<and> P i b"
  shows "\<exists>bs. mapE f [0..<n] = Inr bs \<and> length bs = n \<and> (\<forall>i<n. P i (bs ! i))"
proof -
  obtain bs where bs: "mapE f [0..<n] = Inr bs" "list_all2 P [0..<n] bs"
    using mapE_Inr [of "[0..<n]" f P] assms by auto
  then have "length bs = n" "\<forall>i<n. P i (bs ! i)"
    by (auto simp: list_all2_conv_all_nth)
  with bs show ?thesis by blast
qed

text \<open>
  Claim C2, amended. When the first command is not a cubic, \<^verbatim>\<open>parse\<close> returns a path of the
  length of the command list, and every cubic at index i has a predecessor and becomes a
  Curve whose \<^verbatim>\<open>from\<close> is the point of the Move at i-1, or the endpoint of the cubic at i-1,
  or (0,0) when the command at i-1 is a Close; \<^verbatim>\<open>to\<close>, \<^verbatim>\<open>c1\<close> and \<^verbatim>\<open>c2\<close> are the command's own.
\<close>

theorem parse_from_reconstruction:
  assumes "normalizeSVG d = segments"
    and "segments \<noteq> [] \<longrightarrow> tag (hd segments) \<noteq> ''C''"
  shows "\<exists>path. parse normalizeSVG d = Inr path \<and> length path = length segments \<and>
           (\<forall>i<length segments. \<forall>s1 s2 s3 s4 s5 s6.
              segments ! i = SVGCurveCommand s1 s2 s3 s4 s5 s6 \<longrightarrow>
              0 < i \<and>
              path ! i = Curve
                \<lparr>from' =
                   (case segments ! (i - 1) of
                      SVGMoveCommand a b \<Rightarrow> \<lparr>x = a, y = b\<rparr>
                    | SVGCurveCommand a b c d e f \<Rightarrow> \<lparr>x = e, y = f\<rparr>
                    | SVGCloseCommand \<Rightarrow> \<lparr>x = 0, y = 0\<rparr>),
                 to = \<lparr>x = s5, y = s6\<rparr>, c1 = \<lparr>x = s1, y = s2\<rparr>, c2 = \<lparr>x = s3, y = s4\<rparr>\<rparr>)"
proof -
  let ?P = "\<lambda>i s. \<forall>s1 s2 s3 s4 s5 s6.
              segments ! i = SVGCurveCommand s1 s2 s3 s4 s5 s6 \<longrightarrow>
              0 < i \<and>
              s = Curve
                \<lparr>from' =
                   (case segments ! (i - 1) of
                      SVGMoveCommand a b \<Rightarrow> \<lparr>x = a, y = b\<rparr>
                    | SVGCurveCommand a b c d e f \<Rightarrow> \<lparr>x = e, y = f\<rparr>
                    | SVGCloseCommand \<Rightarrow> \<lparr>x = 0, y = 0\<rparr>),
                 to = \<lparr>x = s5, y = s6\<rparr>, c1 = \<lparr>x = s1, y = s2\<rparr>, c2 = \<lparr>x = s3, y = s4\<rparr>\<rparr>"
  have step: "\<exists>s. parseSegment segments i = Inr s \<and> ?P i s" if i: "i < length segments" for i
  proof (cases "segments ! i")
    case (SVGMoveCommand a b)
    then show ?thesis by (simp add: parseSegment_def)
  next
    case SVGCloseCommand
    then show ?thesis by (simp add: parseSegment_def)
  next
    case (SVGCurveCommand s1 s2 s3 s4 s5 s6)
    have pos: "0 < i"
    proof (rule ccontr)
      assume "\<not> 0 < i"
      then have "i = 0" by simp
      with i SVGCurveCommand have "tag (hd segments) = ''C''"
        by (cases segments) auto
      with assms(2) i show False by auto
    qed
    then have prev: "elemAt segments (i - 1) = Some (segments ! (i - 1))"
      using i by (simp add: elemAt_def)
    show ?thesis
      using SVGCurveCommand pos prev
      by (cases "segments ! (i - 1)") (simp_all add: parseSegment_def curve_def nullish_def)
  qed
  show ?thesis
    using mapE_upt [of "length segments" "parseSegment segments" ?P] step assms(1)
    by (simp add: parse_def parseSegments_def)
qed

text \<open>
  The amended claim on the path of the documentation's example, closed and followed by one
  more cubic.
\<close>

theorem parse_from_reconstruction_witness:
  "(\<lambda>d. [SVGMoveCommand 150 0, SVGCurveCommand 150 0 0 75 200 75,
          SVGCurveCommand 75 200 200 225 200 225, SVGCloseCommand, SVGCurveCommand 1 2 3 4 5 6]) ''d''
     = [SVGMoveCommand 150 0, SVGCurveCommand 150 0 0 75 200 75,
          SVGCurveCommand 75 200 200 225 200 225, SVGCloseCommand, SVGCurveCommand 1 2 3 4 5 6] \<and>
   tag (hd [SVGMoveCommand 150 0, SVGCurveCommand 150 0 0 75 200 75,
          SVGCurveCommand 75 200 200 225 200 225, SVGCloseCommand, SVGCurveCommand 1 2 3 4 5 6]) \<noteq> ''C'' \<and>
   (\<exists>path. parse (\<lambda>d. [SVGMoveCommand 150 0, SVGCurveCommand 150 0 0 75 200 75,
          SVGCurveCommand 75 200 200 225 200 225, SVGCloseCommand, SVGCurveCommand 1 2 3 4 5 6]) ''d'' = Inr path \<and>
      path ! 1 = Curve \<lparr>from' = \<lparr>x = 150, y = 0\<rparr>, to = \<lparr>x = 200, y = 75\<rparr>,
                        c1 = \<lparr>x = 150, y = 0\<rparr>, c2 = \<lparr>x = 0, y = 75\<rparr>\<rparr> \<and>
      path ! 2 = Curve \<lparr>from' = \<lparr>x = 200, y = 75\<rparr>, to = \<lparr>x = 200, y = 225\<rparr>,
                        c1 = \<lparr>x = 75, y = 200\<rparr>, c2 = \<lparr>x = 200, y = 225\<rparr>\<rparr> \<and>
      path ! 4 = Curve \<lparr>from' = \<lparr>x = 0, y = 0\<rparr>, to = \<lparr>x = 5, y = 6\<rparr>,
                        c1 = \<lparr>x = 1, y = 2\<rparr>, c2 = \<lparr>x = 3, y = 4\<rparr>\<rparr>)"
  using parse_from_reconstruction [of
     "\<lambda>d. [SVGMoveCommand 150 0, SVGCurveCommand 150 0 0 75 200 75,
          SVGCurveCommand 75 200 200 225 200 225, SVGCloseCommand, SVGCurveCommand 1 2 3 4 5 6]" "''d''"
     "[SVGMoveCommand 150 0, SVGCurveCommand 150 0 0 75 200 75,
          SVGCurveCommand 75 200 200 225 200 225, SVGCloseCommand, SVGCurveCommand 1 2 3 4 5 6]"]
  by (simp add: parse_def parseSegments_def parseSegment_def upt_rec [of 0] upt_rec [of 1] upt_rec [of 2]
      upt_rec [of 3] upt_rec [of 4] upt_rec [of 5]
      elemAt_def move_def close_def curve_def nullish_def)

section \<open>Results about interpolatePath on structurally identical paths\<close>

text \<open>Structurally identical paths: every path has, at every index of the first, its kind.\<close>

lemma symmetrical_nth:
  assumes "symmetrical paths" "p \<in> set paths" "i < length (hd paths)"
  shows "i < length p \<and> segType (p ! i) = segType (hd paths ! i)"
proof -
  have eq: "map segType p = map segType (hd paths)"
    using assms(1,2) by (simp add: symmetrical_def list_all_iff)
  then have len: "length p = length (hd paths)" by (rule map_eq_imp_length_eq)
  have "map segType p ! i = map segType (hd paths) ! i" using eq by simp
  then show ?thesis using len assms(3) by simp
qed

lemma movePoint_Move:
  assumes "i < length p" "segType (p ! i) = MOVE"
  shows "\<exists>c. movePoint i p = Inr c \<and> p ! i = Move c"
  using assms by (cases "p ! i") (simp_all add: movePoint_def elemAt_def)

lemma curvePoints_Curve:
  assumes "i < length p" "segType (p ! i) = CURVE"
  shows "\<exists>c. curvePoints i p = Inr c \<and> withoutFrom (p ! i) = Curve c"
  using assms by (cases "p ! i") (simp_all add: curvePoints_def elemAt_def)

lemma interpolateSegment_symmetrical:
  assumes "symmetrical paths" "i < length (hd paths)"
  shows "\<exists>s. interpolateSegment interpolate val inputRange paths extrapolate (hd paths ! i) i = Inr s
             \<and> segType s = segType (hd paths ! i)"
proof (cases "hd paths ! i")
  case (Move c)
  have "\<exists>b. movePoint i p = Inr b \<and> p ! i = Move b" if "p \<in> set paths" for p
    using symmetrical_nth [OF assms(1) that assms(2)] Move movePoint_Move [of i p] by simp
  then obtain points where "mapE (movePoint i) paths = Inr points"
    using mapE_Inr [of paths "movePoint i" "\<lambda>p b. p ! i = Move b"] by blast
  then show ?thesis using Move by (simp add: interpolateSegment_def)
next
  case (Curve c)
  have "\<exists>b. curvePoints i p = Inr b \<and> withoutFrom (p ! i) = Curve b" if "p \<in> set paths" for p
    using symmetrical_nth [OF assms(1) that assms(2)] Curve curvePoints_Curve [of i p] by simp
  then obtain curves where "mapE (curvePoints i) paths = Inr curves"
    using mapE_Inr [of paths "curvePoints i" "\<lambda>p b. withoutFrom (p ! i) = Curve b"] by blast
  then show ?thesis using Curve by (simp add: interpolateSegment_def)
next
  case Close
  then show ?thesis by (simp add: interpolateSegment_def)
qed

lemma interpolatedPath_symmetrical:
  assumes "symmetrical paths" "paths \<noteq> []"
  shows "\<exists>path. interpolatedPath interpolate val inputRange paths extrapolate = Inr path \<and>
           map segType path = map segType (hd paths)"
proof -
  let ?f = "\<lambda>index. interpolateSegment interpolate val inputRange paths extrapolate
                          (hd paths ! index) index"
  obtain path where path: "mapE ?f [0..<length (hd paths)] = Inr path"
      "length path = length (hd paths)"
      "\<forall>i<length (hd paths). segType (path ! i) = segType (hd paths ! i)"
    using mapE_upt [of "length (hd paths)" ?f "\<lambda>i s. segType s = segType (hd paths ! i)"]
      interpolateSegment_symmetrical [OF assms(1)] by blast
  have "map segType path = map segType (hd paths)"
    using path(2,3) by (simp add: list_eq_iff_nth_eq)
  moreover have "elemAt paths 0 = Some (hd paths)"
    using assms(2) by (cases paths) (simp_all add: elemAt_def)
  ultimately show ?thesis using path(1) by (simp add: interpolatedPath_def)
qed

lemma segType_CLOSE: "segType s = CLOSE \<longleftrightarrow> s = Close"
  by (cases s) simp_all

text \<open>
  Claim C8. For structurally identical paths, whatever \<^verbatim>\<open>interpolate\<close> computes and whatever
  the value, the interpolation succeeds, and where the first path has a Close the
  interpolated path has a Close: the segment is returned as it is, \<^verbatim>\<open>interpolate\<close> is not
  consulted. When that index is the last one, the returned string ends in "Z".
\<close>

theorem interpolatePath_close_passthrough:
  assumes "symmetrical paths" "paths \<noteq> []" "i < length (hd paths)" "hd paths ! i = Close"
  shows "\<exists>path out.
           interpolatedPath interpolate val inputRange paths (extrapolateOrDefault extrapolate) = Inr path \<and>
           length path = length (hd paths) \<and> path ! i = Close \<and>
           interpolatePath interpolate str val inputRange paths extrapolate = Inr out \<and>
           (i = length (hd paths) - 1 \<longrightarrow> out \<noteq> [] \<and> last out = CHR ''Z'')"
proof -
  obtain path where path:
      "interpolatedPath interpolate val inputRange paths (extrapolateOrDefault extrapolate) = Inr path"
      "map segType path = map segType (hd paths)"
    using interpolatedPath_symmetrical [OF assms(1,2)] by blast
  have len: "length path = length (hd paths)"
    using path(2) by (rule map_eq_imp_length_eq)
  have "map segType path ! i = map segType (hd paths) ! i" using path(2) by simp
  then have cl: "path ! i = Close"
    using len assms(3,4) by (simp add: segType_CLOSE)
  have ne: "path \<noteq> []" using len assms(3) by auto
  let ?tok = "\<lambda>s. case s of Move c \<Rightarrow> serializeMove str c
                   | Curve c \<Rightarrow> serializeCurve str c | Close \<Rightarrow> serializeClose"
  have out: "interpolatePath interpolate str val inputRange paths extrapolate
               = Inr (concat (map ?tok path))"
    using path(1) serialize_concat [OF ne, of str] by (simp add: interpolatePath_def)
  have "concat (map ?tok path) \<noteq> [] \<and> last (concat (map ?tok path)) = CHR ''Z''"
    if "i = length (hd paths) - 1"
  proof -
    have "last path = Close" using that cl len ne by (simp add: last_conv_nth)
    then have "butlast path @ [Close] = path" using ne append_butlast_last_id [of path] by simp
    then obtain bl where bl: "path = bl @ [Close]" by metis
    have "concat (map ?tok path) = concat (map ?tok bl) @ ''Z''"
      unfolding bl by (simp add: serializeClose_def)
    then show ?thesis by simp
  qed
  then show ?thesis using path(1) len cl out by blast
qed

text \<open>
  The claim on two paths that end in Close, half way.
\<close>

theorem interpolatePath_close_passthrough_witness:
  "symmetrical [ [Move \<lparr>x = 0, y = 0\<rparr>, Close :: Vector Segment], [Move \<lparr>x = 10, y = 10\<rparr>, Close] ] \<and>
   [ [Move \<lparr>x = 0, y = 0\<rparr>, Close :: Vector Segment], [Move \<lparr>x = 10, y = 10\<rparr>, Close] ] \<noteq> [] \<and>
   1 < length (hd [ [Move \<lparr>x = 0, y = 0\<rparr>, Close :: Vector Segment], [Move \<lparr>x = 10, y = 10\<rparr>, Close] ]) \<and>
   hd [ [Move \<lparr>x = 0, y = 0\<rparr>, Close :: Vector Segment], [Move \<lparr>x = 10, y = 10\<rparr>, Close] ] ! 1 = Close \<and>
   (\<exists>path out.
      interpolatedPath interpolate_spec (1 / 2) [0, 1]
        [ [Move \<lparr>x = 0, y = 0\<rparr>, Close :: Vector Segment], [Move \<lparr>x = 10, y = 10\<rparr>, Close] ] CLAMP = Inr path \<and>
      path ! 1 = Close \<and>
      interpolatePath interpolate_spec numberToString (1 / 2) [0, 1]
        [ [Move \<lparr>x = 0, y = 0\<rparr>, Close :: Vector Segment], [Move \<lparr>x = 10, y = 10\<rparr>, Close] ] None = Inr out \<and>
      last out = CHR ''Z'')"
proof -
  let ?ps = "[ [Move \<lparr>x = 0, y = 0\<rparr>, Close :: Vector Segment], [Move \<lparr>x = 10, y = 10\<rparr>, Close] ]"
  have h: "symmetrical ?ps" "?ps \<noteq> []" "1 < length (hd ?ps)" "hd ?ps ! 1 = Close"
    by (simp_all add: symmetrical_def)
  show ?thesis
    using interpolatePath_close_passthrough [OF h, of interpolate_spec "1 / 2" "[0, 1]" None numberToString] h
    by (auto simp: extrapolateOrDefault_def)
qed



lemma serializeSegment_withoutFrom:
  "serializeSegment str (withoutFrom s) = serializeSegment str s"
  by (cases s) (simp_all add: serializeSegment_def serializeCurve_def)

lemma mapE_map: "mapE f (map g as) = mapE (\<lambda>a. f (g a)) as"
  by (induction as) (simp_all split: sum.splits)

lemma mapE_cong:
  assumes "\<And>a. a \<in> set as \<Longrightarrow> f a = g a"
  shows "mapE f as = mapE g as"
  using assms
proof (induction as)
  case Nil
  show ?case by simp
next
  case (Cons a as)
  then have "f a = g a" "mapE f as = mapE g as" by simp_all
  then show ?case by (simp split: sum.splits)
qed

lemma serialize_withoutFrom: "serialize str (map withoutFrom p) = serialize str p"
  by (simp add: serialize_def mapE_map serializeSegment_withoutFrom)







section \<open>The from field does not reach the output\<close>

text \<open>Nothing in \<^verbatim>\<open>interpolatePath\<close> reads a \<^verbatim>\<open>from\<close> field.\<close>

lemma movePoint_withoutFrom: "movePoint i (map withoutFrom p) = movePoint i p"
proof (cases "i < length p")
  case True
  then show ?thesis by (cases "p ! i") (simp_all add: movePoint_def elemAt_def)
next
  case False
  then show ?thesis by (simp add: movePoint_def elemAt_def)
qed

lemma curvePoints_withoutFrom: "curvePoints i (map withoutFrom p) = curvePoints i p"
proof (cases "i < length p")
  case True
  then show ?thesis by (cases "p ! i") (simp_all add: curvePoints_def elemAt_def)
next
  case False
  then show ?thesis by (simp add: curvePoints_def elemAt_def)
qed

lemma interpolateSegment_withoutFrom:
  "interpolateSegment interpolate val inputRange (map (map withoutFrom) ps) extrapolate
       (withoutFrom s) i
     = interpolateSegment interpolate val inputRange ps extrapolate s i"
  by (cases s)
    (simp_all add: interpolateSegment_def mapE_map movePoint_withoutFrom curvePoints_withoutFrom)

lemma interpolatedPath_withoutFrom:
  "interpolatedPath interpolate val inputRange (map (map withoutFrom) ps) extrapolate
     = interpolatedPath interpolate val inputRange ps extrapolate"
proof (cases ps)
  case Nil
  then show ?thesis by (simp add: interpolatedPath_def elemAt_def)
next
  case (Cons p0 rest)
  have "mapE (\<lambda>index. interpolateSegment interpolate val inputRange (map (map withoutFrom) ps)
                 extrapolate (map withoutFrom p0 ! index) index) [0..<length p0]
      = mapE (\<lambda>index. interpolateSegment interpolate val inputRange ps extrapolate
                 (p0 ! index) index) [0..<length p0]"
    by (rule mapE_cong) (simp add: interpolateSegment_withoutFrom)
  then show ?thesis using Cons by (simp add: interpolatedPath_def elemAt_def)
qed

text \<open>
  Claim C10. Two paths, or two families of paths, that agree once the \<^verbatim>\<open>from\<close> fields of their
  Curves are forgotten (the \<^verbatim>\<open>from\<close> fields may even be of different types) have the same
  \<^verbatim>\<open>serialize\<close> and the same \<^verbatim>\<open>interpolatePath\<close> result, errors included, for every value, input
  range, extrapolation, \<^verbatim>\<open>interpolate\<close> and number printer.
\<close>

theorem from_noninterference:
  "(map withoutFrom (p :: 'f Path) = map withoutFrom (q :: 'g Path) \<longrightarrow>
      serialize str p = serialize str q) \<and>
   (map (map withoutFrom) (ps :: 'f Path list) = map (map withoutFrom) (qs :: 'g Path list) \<longrightarrow>
      interpolatePath interpolate str val inputRange ps extrapolate
        = interpolatePath interpolate str val inputRange qs extrapolate)"
proof (intro conjI impI)
  assume "map withoutFrom p = map withoutFrom q"
  then show "serialize str p = serialize str q"
    using serialize_withoutFrom [of str p] serialize_withoutFrom [of str q] by simp
next
  assume "map (map withoutFrom) ps = map (map withoutFrom) qs"
  then have "interpolatedPath interpolate val inputRange ps (extrapolateOrDefault extrapolate)
      = interpolatedPath interpolate val inputRange qs (extrapolateOrDefault extrapolate)"
    using interpolatedPath_withoutFrom [of interpolate val inputRange ps]
      interpolatedPath_withoutFrom [of interpolate val inputRange qs] by simp
  then show "interpolatePath interpolate str val inputRange ps extrapolate
        = interpolatePath interpolate str val inputRange qs extrapolate"
    by (simp add: interpolatePath_def)
qed

text \<open>
  The claim on paths whose Curves differ in \<^verbatim>\<open>from\<close> only.
\<close>

theorem from_noninterference_witness:
  "map withoutFrom
     [Move \<lparr>x = 1, y = 2\<rparr>,
      Curve \<lparr>from' = \<lparr>x = 1, y = 2\<rparr>, to = \<lparr>x = 7, y = 8\<rparr>,
             c1 = \<lparr>x = 3, y = 4\<rparr>, c2 = \<lparr>x = 5, y = 6\<rparr>\<rparr>]
   = map withoutFrom
     [Move \<lparr>x = 1, y = 2\<rparr>,
      Curve \<lparr>from' = \<lparr>x = 9, y = 9\<rparr>, to = \<lparr>x = 7, y = 8\<rparr>,
             c1 = \<lparr>x = 3, y = 4\<rparr>, c2 = \<lparr>x = 5, y = 6\<rparr>\<rparr>] \<and>
   serialize numberToString
     [Move \<lparr>x = 1, y = 2\<rparr>,
      Curve \<lparr>from' = \<lparr>x = 1, y = 2\<rparr>, to = \<lparr>x = 7, y = 8\<rparr>,
             c1 = \<lparr>x = 3, y = 4\<rparr>, c2 = \<lparr>x = 5, y = 6\<rparr>\<rparr>]
   = serialize numberToString
     [Move \<lparr>x = 1, y = 2\<rparr>,
      Curve \<lparr>from' = \<lparr>x = 9, y = 9\<rparr>, to = \<lparr>x = 7, y = 8\<rparr>,
             c1 = \<lparr>x = 3, y = 4\<rparr>, c2 = \<lparr>x = 5, y = 6\<rparr>\<rparr>] \<and>
   map (map withoutFrom)
     [ [Curve \<lparr>from' = \<lparr>x = 1, y = 2\<rparr>, to = \<lparr>x = 7, y = 8\<rparr>,
              c1 = \<lparr>x = 3, y = 4\<rparr>, c2 = \<lparr>x = 5, y = 6\<rparr>\<rparr>],
      [Curve \<lparr>from' = \<lparr>x = 0, y = 0\<rparr>, to = \<lparr>x = 1, y = 1\<rparr>,
              c1 = \<lparr>x = 2, y = 2\<rparr>, c2 = \<lparr>x = 3, y = 3\<rparr>\<rparr>] ]
   = map (map withoutFrom)
     [ [Curve \<lparr>from' = \<lparr>x = 9, y = 9\<rparr>, to = \<lparr>x = 7, y = 8\<rparr>,
              c1 = \<lparr>x = 3, y = 4\<rparr>, c2 = \<lparr>x = 5, y = 6\<rparr>\<rparr>],
      [Curve \<lparr>from' = \<lparr>x = 8, y = 8\<rparr>, to = \<lparr>x = 1, y = 1\<rparr>,
              c1 = \<lparr>x = 2, y = 2\<rparr>, c2 = \<lparr>x = 3, y = 3\<rparr>\<rparr>] ] \<and>
   interpolatePath interpolate_spec numberToString (1 / 2) [0, 1]
     [ [Curve \<lparr>from' = \<lparr>x = 1, y = 2\<rparr>, to = \<lparr>x = 7, y = 8\<rparr>,
              c1 = \<lparr>x = 3, y = 4\<rparr>, c2 = \<lparr>x = 5, y = 6\<rparr>\<rparr>],
      [Curve \<lparr>from' = \<lparr>x = 0, y = 0\<rparr>, to = \<lparr>x = 1, y = 1\<rparr>,
              c1 = \<lparr>x = 2, y = 2\<rparr>, c2 = \<lparr>x = 3, y = 3\<rparr>\<rparr>] ] None
   = interpolatePath interpolate_spec numberToString (1 / 2) [0, 1]
     [ [Curve \<lparr>from' = \<lparr>x = 9, y = 9\<rparr>, to = \<lparr>x = 7, y = 8\<rparr>,
              c1 = \<lparr>x = 3, y = 4\<rparr>, c2 = \<lparr>x = 5, y = 6\<rparr>\<rparr>],
      [Curve \<lparr>from' = \<lparr>x = 8, y = 8\<rparr>, to = \<lparr>x = 1, y = 1\<rparr>,
              c1 = \<lparr>x = 2, y = 2\<rparr>, c2 = \<lparr>x = 3, y = 3\<rparr>\<rparr>] ] None"
proof -
  let ?p = "[Move \<lparr>x = 1, y = 2\<rparr>,
      Curve \<lparr>from' = \<lparr>x = 1, y = 2\<rparr>, to = \<lparr>x = 7, y = 8\<rparr>,
             c1 = \<lparr>x = 3, y = 4\<rparr>, c2 = \<lparr>x = 5, y = 6\<rparr>\<rparr>]"
  let ?q = "[Move \<lparr>x = 1, y = 2\<rparr>,
      Curve \<lparr>from' = \<lparr>x = 9, y = 9\<rparr>, to = \<lparr>x = 7, y = 8\<rparr>,
             c1 = \<lparr>x = 3, y = 4\<rparr>, c2 = \<lparr>x = 5, y = 6\<rparr>\<rparr>]"
  let ?ps = "[ [Curve \<lparr>from' = \<lparr>x = 1, y = 2\<rparr>, to = \<lparr>x = 7, y = 8\<rparr>,
              c1 = \<lparr>x = 3, y = 4\<rparr>, c2 = \<lparr>x = 5, y = 6\<rparr>\<rparr>],
      [Curve \<lparr>from' = \<lparr>x = 0, y = 0\<rparr>, to = \<lparr>x = 1, y = 1\<rparr>,
              c1 = \<lparr>x = 2, y = 2\<rparr>, c2 = \<lparr>x = 3, y = 3\<rparr>\<rparr>] ]"
  let ?qs = "[ [Curve \<lparr>from' = \<lparr>x = 9, y = 9\<rparr>, to = \<lparr>x = 7, y = 8\<rparr>,
              c1 = \<lparr>x = 3, y = 4\<rparr>, c2 = \<lparr>x = 5, y = 6\<rparr>\<rparr>],
      [Curve \<lparr>from' = \<lparr>x = 8, y = 8\<rparr>, to = \<lparr>x = 1, y = 1\<rparr>,
              c1 = \<lparr>x = 2, y = 2\<rparr>, c2 = \<lparr>x = 3, y = 3\<rparr>\<rparr>] ]"
  have 1: "map withoutFrom ?p = map withoutFrom ?q" by simp
  have 2: "map (map withoutFrom) ?ps = map (map withoutFrom) ?qs" by simp
  note t = from_noninterference [where p = ?p and q = ?q and ps = ?ps and qs = ?qs
      and str = numberToString and interpolate = interpolate_spec and val = "1 / 2"
      and inputRange = "[0, 1]" and extrapolate = None]
  have 3: "serialize numberToString ?p = serialize numberToString ?q"
    using t 1 by blast
  have 4: "interpolatePath interpolate_spec numberToString (1 / 2) [0, 1] ?ps None
         = interpolatePath interpolate_spec numberToString (1 / 2) [0, 1] ?qs None"
    using t 2 by blast
  show ?thesis using 1 2 3 4 by blast
qed

section \<open>getYForX on a vertical Curve\<close>

text \<open>
  A Curve with \<^verbatim>\<open>from.x = to.x\<close> is kept by the filter exactly for the query at its x, and
  \<^verbatim>\<open>getYForX\<close> then hands it to \<^verbatim>\<open>cubicBezierYForX\<close> like any other Curve (see the lemma on the
  first kept Curve above); \<^verbatim>\<open>getYForX\<close> itself has no case for the ends of a Curve.
\<close>

lemma getYForX_filter_degenerate:
  "x (from' c) = x (to c) \<Longrightarrow> getYForX_filter qx (Curve c) \<longleftrightarrow> qx = x (from' c)"
  by (auto simp: getYForX_filter_def)

end
